theory Spec2Isabelle
  imports Complex_Main "HOL-Library.Word"
begin

section \<open>Errors and aborts\<close>

text \<open>
  The error values of the two packages (\<^verbatim>\<open>kzg.go\<close> lines 34-41, \<^verbatim>\<open>ratios.go\<close> lines 33-43).
  \<open>ErrExternal\<close> stands for an error value produced by a consumed primitive (multi-scalar
  multiplication, pairing, transcript). \<open>Panic\<close> is not a Go error value: it marks a run-time
  abort (index or slice bounds out of range), so that every abort of the source is a branch
  of the model.
\<close>

datatype error =
    ErrInvalidNbDigests
  | ErrInvalidPolynomialSize
  | ErrVerifyOpeningProof
  | ErrVerifyBatchOpeningSinglePoint
  | ErrInvalidDomain
  | ErrMinSRSSize
  | ErrMustBeRegular
  | ErrMustBeCanonical
  | ErrMustBeLagrangeCoset
  | ErrInconsistentFormat
  | ErrInconsistentSize
  | ErrNumberPolynomials
  | ErrSizeNotPowerOfTwo
  | ErrInconsistentSizeDomain
  | ErrIncorrectNumberOfVariables
  | ErrExternal string
  | Panic string

section \<open>Consumed primitives: field, groups, pairing\<close>

text \<open>
  The scalar field is any type of class \<open>field\<close>. The curve groups and the pairing are
  external to the repository's core. Both groups are cyclic of prime order, the order of the
  scalar field, so a group element is written here as its scalar relative to the group's
  generator: the generator is \<open>1\<close>, the point at infinity is \<open>0\<close>, group addition is field
  addition and scalar multiplication is field multiplication. Affine and Jacobian forms are
  two representations of the same element and are not distinguished.
\<close>

type_synonym byte = "8 word"

definition ScalarMultiplication :: "'a::field \<Rightarrow> 'a \<Rightarrow> 'a" where
  \<comment> \<open>Modelled from the spec: GroupArithmetic ScalarMul, \<open>[s]P\<close>.\<close>
  "ScalarMultiplication P s = s * P"

definition BatchScalarMultiplicationG1 :: "'a::field \<Rightarrow> 'a list \<Rightarrow> 'a list" where
  \<comment> \<open>Modelled from the spec: one batched scalar multiplication of a base by many scalars.\<close>
  "BatchScalarMultiplicationG1 base scalars = map (ScalarMultiplication base) scalars"

definition MultiExp :: "'a::field list \<Rightarrow> 'a list \<Rightarrow> error + 'a" where
  \<comment> \<open>Modelled from the spec: MultiScalarMul(bases, scalars, config), the sum of
      \<open>[scalars\<^sub>i]points\<^sub>i\<close>; the configuration only bounds the number of workers. The
      primitive reports an error when the two lists differ in length.\<close>
  "MultiExp points scalars =
     (if length points \<noteq> length scalars then Inl (ErrExternal ''MultiExp: len(points) != len(scalars)'')
      else Inr (sum_list (map2 ScalarMultiplication points scalars)))"

definition PairingCheck :: "'a::field list \<Rightarrow> 'a list \<Rightarrow> error + bool" where
  \<comment> \<open>Modelled from the spec: PairingCheck(G1 list, G2 list), whether the product of the
      pairings over the paired lists equals one. The pairing is bilinear and non-degenerate,
      so on scalars relative to the generators the product is one exactly when the sum of
      the products of the scalars is zero. The primitive reports an error on empty lists
      or lists of different lengths.\<close>
  "PairingCheck P Q =
     (if length P = 0 \<or> length P \<noteq> length Q then Inl (ErrExternal ''PairingCheck: invalid input sizes'')
      else Inr (sum_list (map2 (*) P Q) = 0))"

fun Eval :: "'a::field list \<Rightarrow> 'a \<Rightarrow> 'a" where
  \<comment> \<open>Modelled from the spec: polynomial evaluation \<open>f(point)\<close> of a coefficient list, lowest
      degree first.\<close>
  "Eval [] v = 0"
| "Eval (c # cs) v = c + v * Eval cs v"

section \<open>KZG: data model\<close>

record 'a SRS =
  G1 :: "'a list"
  G2 :: "'a \<times> 'a"

record 'a OpeningProof =
  H :: 'a
  Point :: 'a
  ClaimedValue :: 'a

record 'a BatchOpeningProof =
  BatchH :: 'a
  BatchPoint :: 'a
  ClaimedValues :: "'a list"

text \<open>
  The evaluation domain is consumed, not built: the record holds the fields the core reads.
  \<open>Cardinality\<close> is a \<^verbatim>\<open>uint64\<close>.
\<close>

record 'a Domain =
  Cardinality :: nat
  Generator :: 'a
  Twiddles :: "'a list list"
  FrMultiplicativeGen :: 'a
  CosetTable :: "'a list"

text \<open>Go's conversion \<^verbatim>\<open>int(x)\<close> of a \<^verbatim>\<open>uint64\<close>: two's complement on 64 bits.\<close>

definition int_of_uint64 :: "nat \<Rightarrow> int" where
  "int_of_uint64 x = (if x mod 2 ^ 64 < 2 ^ 63 then int (x mod 2 ^ 64) else int (x mod 2 ^ 64) - 2 ^ 64)"

text \<open>
  A Go slice, seen from its first element: \<open>arr\<close> is the backing array from there up to the
  capacity, \<open>len\<close> the number of visible elements.
\<close>

record 'a slice =
  arr :: "'a list"
  len :: nat

definition make_slice :: "nat \<Rightarrow> nat \<Rightarrow> 'a::zero slice" where
  "make_slice l c = \<lparr>arr = replicate c 0, len = l\<rparr>"

definition copy :: "'a slice \<Rightarrow> 'a list \<Rightarrow> 'a slice" where
  "copy dst src =
     (let k = min (len dst) (length src)
      in dst\<lparr>arr := take k src @ drop k (arr dst)\<rparr>)"

definition visible :: "'a slice \<Rightarrow> 'a list" where
  "visible s = take (len s) (arr s)"

section \<open>KZG: setup and commitment\<close>

text \<open>\<open>mul_chain x prev k\<close> is the loop \<^verbatim>\<open>a[i].Mul(&a[i-1], &x)\<close> run \<open>k\<close> times after \<open>prev\<close>.\<close>

fun mul_chain :: "'a::field \<Rightarrow> 'a \<Rightarrow> nat \<Rightarrow> 'a list" where
  "mul_chain x prev 0 = []"
| "mul_chain x prev (Suc k) = (prev * x) # mul_chain x (prev * x) k"

definition NewSRS :: "nat \<Rightarrow> 'a::field \<Rightarrow> error + 'a SRS" where
  "NewSRS size' alpha =
     (if size' < 2 then Inl ErrMinSRSSize
      else
        let gen1Aff = 1;
            gen2Aff = 1;
            alphas = alpha # mul_chain alpha alpha (size' - 2);
            g1s = BatchScalarMultiplicationG1 gen1Aff alphas
        in Inr \<lparr>G1 = gen1Aff # g1s, G2 = (gen2Aff, ScalarMultiplication gen2Aff alpha)\<rparr>)"

type_synonym CPUSemaphore = nat

text \<open>
  \<open>Commit\<close> (lines 119-165). \<open>opt\<close> is the variadic limiter argument and \<open>numCpus\<close> the value
  of \<^verbatim>\<open>runtime.NumCPU()\<close>. In the split path part 2 runs on the calling thread and its error
  is returned first; part 1 is joined afterwards.
\<close>

definition Commit :: "'a::field list \<Rightarrow> 'a SRS \<Rightarrow> CPUSemaphore list \<Rightarrow> nat \<Rightarrow> error + 'a" where
  "Commit p srs opt numCpus =
     (if length p = 0 \<or> length p > length (G1 srs) then Inl ErrInvalidPolynomialSize
      else if length opt > 0 then MultiExp (take (length p) (G1 srs)) p
      else if numCpus > 16 then
        (let m = length p div 2 in
         case MultiExp (drop m (take (length p) (G1 srs))) (drop m p) of
           Inl err \<Rightarrow> Inl err
         | Inr p2 \<Rightarrow>
             (case MultiExp (take m (G1 srs)) (take m p) of
                Inl err1 \<Rightarrow> Inl err1
              | Inr p1 \<Rightarrow> Inr (p1 + p2)))
      else MultiExp (take (length p) (G1 srs)) p)"

section \<open>KZG: opening and verification\<close>

text \<open>
  The synthetic division loop of \<open>dividePolyByXminusA\<close> (lines 537-542):
  \<^verbatim>\<open>for i := len(f) - 1; i >= 0; i-- { t.Mul(&c, &a); f[i].Add(&f[i], &t); c, f[i] = f[i], c }\<close>.
  The counter is \<open>i + 1\<close>; the final carry \<open>c\<close> is returned with the array.
\<close>

fun divide_loop :: "'a::field \<Rightarrow> nat \<Rightarrow> 'a \<Rightarrow> 'a list \<Rightarrow> 'a \<times> 'a list" where
  "divide_loop a 0 c f = (c, f)"
| "divide_loop a (Suc i) c f = divide_loop a i (f ! i + c * a) (f[i := c])"

definition dividePolyByXminusA :: "'a::field Domain \<Rightarrow> 'a slice \<Rightarrow> 'a \<Rightarrow> 'a \<Rightarrow> error + 'a list" where
  "dividePolyByXminusA d f fa a =
     (let degree = int (len f) - 1 in
      if Cardinality d > length (arr f) then Inl (Panic ''slice bounds out of range'')
      else
        let f1 = take (Cardinality d) (arr f) in
        if length f1 = 0 then Inl (Panic ''index out of range'')
        else
          let f2 = f1[0 := f1 ! 0 - fa];
              f3 = snd (divide_loop a (length f2) 0 f2)
          in if degree < 0 then Inl (Panic ''slice bounds out of range'')
             else Inr (take (nat degree) (f3 @ drop (Cardinality d) (arr f))))"

text \<open>
  \<open>Open\<close> (lines 169-197). The inner \<open>Commit\<close> is called without a limiter, so it depends on
  \<open>numCpus\<close>.
\<close>

definition Open :: "'a::field list \<Rightarrow> 'a \<Rightarrow> 'a Domain \<Rightarrow> 'a SRS \<Rightarrow> nat \<Rightarrow> error + 'a OpeningProof" where
  "Open p point domain srs numCpus =
     (if length p = 0 \<or> length p > length (G1 srs) then Inl ErrInvalidPolynomialSize
      else if int (length p) > int_of_uint64 (Cardinality domain) then Inl ErrInvalidDomain
      else
        let claimed = Eval p point;
            p' = copy (make_slice (length p) (Cardinality domain)) p
        in case dividePolyByXminusA domain p' claimed point of
             Inl e \<Rightarrow> Inl e
           | Inr h \<Rightarrow>
               (case Commit h srs [] numCpus of
                  Inl err \<Rightarrow> Inl err
                | Inr hCommit \<Rightarrow> Inr \<lparr>H = hCommit, Point = point, ClaimedValue = claimed\<rparr>))"

text \<open>\<open>Verify\<close> (lines 200-248); \<open>None\<close> is the \<^verbatim>\<open>nil\<close> error.\<close>

definition Verify :: "'a::field \<Rightarrow> 'a OpeningProof \<Rightarrow> 'a SRS \<Rightarrow> error option" where
  "Verify commitment proof srs =
     (if G1 srs = [] then Some (Panic ''index out of range'')
      else
        let claimedValueG1Aff = ScalarMultiplication (G1 srs ! 0) (ClaimedValue proof);
            fminusfaG1 = commitment - claimedValueG1Aff;
            negH = - H proof;
            alphaMinusaG2 = - ScalarMultiplication (fst (G2 srs)) (Point proof) + snd (G2 srs)
        in case PairingCheck [fminusfaG1, negH] [fst (G2 srs), alphaMinusaG2] of
             Inl err \<Rightarrow> Some err
           | Inr check \<Rightarrow> if \<not> check then Some ErrVerifyOpeningProof else None)"

section \<open>KZG: Fiat-Shamir challenge, folding and batch verification\<close>

text \<open>
  The transcript and the hash are consumed through their interfaces; they are parameters of
  the model. \<open>'h\<close> is the state of the caller's \<^verbatim>\<open>hash.Hash\<close> object and \<open>'t\<close> the state of a
  transcript built on it. The transcript writes to the caller's hash object, so the hash
  state a call leaves behind is \<open>hash_state\<close> of the last transcript state.
\<close>

record ('a, 'h, 't) fiatshamir =
  NewTranscript :: "'h \<Rightarrow> string \<Rightarrow> 't"
  Bind :: "'t \<Rightarrow> string \<Rightarrow> byte list \<Rightarrow> error option \<times> 't"
  ComputeChallenge :: "'t \<Rightarrow> string \<Rightarrow> (error + byte list) \<times> 't"
  hash_state :: "'t \<Rightarrow> 'h"
  Reset :: "'h \<Rightarrow> 'h"
  MarshalFr :: "'a \<Rightarrow> byte list"
  MarshalG1 :: "'a \<Rightarrow> byte list"
  SetBytes :: "byte list \<Rightarrow> 'a"

text \<open>The loop of lines 507-511: bind every digest in list order, stop at the first error.\<close>

fun bind_digests :: "('a, 'h, 't) fiatshamir \<Rightarrow> 't \<Rightarrow> 'a list \<Rightarrow> error option \<times> 't" where
  "bind_digests fs t [] = (None, t)"
| "bind_digests fs t (dg # dgs) =
     (case Bind fs t ''gamma'' (MarshalG1 fs dg) of
        (Some err, t') \<Rightarrow> (Some err, t')
      | (None, t') \<Rightarrow> bind_digests fs t' dgs)"

text \<open>\<open>deriveGamma\<close> (lines 500-523) returns the challenge or the error, and the hash state.\<close>

definition deriveGamma ::
  "('a, 'h, 't) fiatshamir \<Rightarrow> 'a \<Rightarrow> 'a list \<Rightarrow> 'h \<Rightarrow> (error + 'a) \<times> 'h" where
  "deriveGamma fs point digests hf =
     (let t0 = NewTranscript fs hf ''gamma'' in
      case Bind fs t0 ''gamma'' (MarshalFr fs point) of
        (Some err, t1) \<Rightarrow> (Inl err, hash_state fs t1)
      | (None, t1) \<Rightarrow>
          (case bind_digests fs t1 digests of
             (Some err, t2) \<Rightarrow> (Inl err, hash_state fs t2)
           | (None, t2) \<Rightarrow>
               (case ComputeChallenge fs t2 ''gamma'' of
                  (Inl err, t3) \<Rightarrow> (Inl err, hash_state fs t3)
                | (Inr gammaByte, t3) \<Rightarrow>
                    (Inr (SetBytes fs gammaByte), Reset fs (hash_state fs t3)))))"

text \<open>
  \<open>fold\<close> (lines 478-497), named \<open>fold_kzg\<close> here. The loop indexes \<open>evaluations\<close> and \<open>factors\<close> by the positions of
  \<open>digests\<close>. The value \<open>MultiExp\<close> returns is dropped by the source: on an error of the
  primitive the folded digest keeps its zero value, the point at infinity.
\<close>

fun fold_evals :: "'a::field list \<Rightarrow> 'a list \<Rightarrow> nat \<Rightarrow> nat \<Rightarrow> 'a \<Rightarrow> error + 'a" where
  "fold_evals evaluations factors i 0 acc = Inr acc"
| "fold_evals evaluations factors i (Suc k) acc =
     (if i \<ge> length evaluations \<or> i \<ge> length factors then Inl (Panic ''index out of range'')
      else fold_evals evaluations factors (Suc i) k (acc + evaluations ! i * factors ! i))"

definition fold_kzg :: "'a::field list \<Rightarrow> 'a list \<Rightarrow> 'a list \<Rightarrow> error + ('a \<times> 'a)" where
  "fold_kzg digests evaluations factors =
     (let nbDigests = length digests in
      case fold_evals evaluations factors 0 nbDigests 0 of
        Inl e \<Rightarrow> Inl e
      | Inr foldedEvaluations \<Rightarrow>
          let foldedDigests = (case MultiExp digests factors of Inl err \<Rightarrow> 0 | Inr r \<Rightarrow> r)
          in Inr (foldedDigests, foldedEvaluations))"

text \<open>\<open>FoldProof\<close> (lines 346-376).\<close>

definition FoldProof ::
  "('a::field, 'h, 't) fiatshamir \<Rightarrow> 'a list \<Rightarrow> 'a BatchOpeningProof \<Rightarrow> 'h
     \<Rightarrow> (error + ('a OpeningProof \<times> 'a)) \<times> 'h" where
  "FoldProof fs digests batchOpeningProof hf =
     (let nbDigests = length digests in
      if nbDigests \<noteq> length (ClaimedValues batchOpeningProof) then (Inl ErrInvalidNbDigests, hf)
      else
        case deriveGamma fs (BatchPoint batchOpeningProof) digests hf of
          (Inl err, hf') \<Rightarrow> (Inl ErrInvalidNbDigests, hf')
        | (Inr gamma, hf') \<Rightarrow>
            if nbDigests = 0 then (Inl (Panic ''index out of range''), hf')
            else
              let gammai = 1 # mul_chain gamma 1 (nbDigests - 1) in
              case fold_kzg digests (ClaimedValues batchOpeningProof) gammai of
                Inl e \<Rightarrow> (Inl e, hf')
              | Inr (foldedDigests, foldedEvaluations) \<Rightarrow>
                  (Inr (\<lparr>H = BatchH batchOpeningProof, Point = BatchPoint batchOpeningProof,
                          ClaimedValue = foldedEvaluations\<rparr>, foldedDigests), hf'))"

text \<open>\<open>BatchVerifySinglePoint\<close> (lines 382-394).\<close>

definition BatchVerifySinglePoint ::
  "('a::field, 'h, 't) fiatshamir \<Rightarrow> 'a list \<Rightarrow> 'a BatchOpeningProof \<Rightarrow> 'h \<Rightarrow> 'a SRS
     \<Rightarrow> error option \<times> 'h" where
  "BatchVerifySinglePoint fs digests batchOpeningProof hf srs =
     (case FoldProof fs digests batchOpeningProof hf of
        (Inl err, hf') \<Rightarrow> (Some err, hf')
      | (Inr (foldedProof, foldedDigest), hf') \<Rightarrow> (Verify foldedDigest foldedProof srs, hf'))"

text \<open>
  \<open>BatchVerifyMultiPoints\<close> (lines 401-471). \<open>rnd i\<close> is the value \<^verbatim>\<open>SetRandom\<close> draws for
  slot \<open>i\<close>. The values returned by the two \<open>MultiExp\<close> calls are dropped by the source.
\<close>

definition BatchVerifyMultiPoints ::
  "(nat \<Rightarrow> 'a::field) \<Rightarrow> 'a list \<Rightarrow> 'a OpeningProof list \<Rightarrow> 'a SRS \<Rightarrow> error option" where
  "BatchVerifyMultiPoints rnd digests proofs srs =
     (if length digests \<noteq> length proofs then Some ErrInvalidNbDigests
      else if length digests = 1 then Verify (digests ! 0) (proofs ! 0) srs
      else if length digests = 0 then Some (Panic ''index out of range [0] with length 0'')
      else
        let randomNumbers = 1 # map rnd [1..<length digests];
            quotients = map H proofs;
            foldedQuotients = (case MultiExp quotients randomNumbers of Inl err \<Rightarrow> 0 | Inr r \<Rightarrow> r);
            evals = map ClaimedValue proofs
        in case fold_kzg digests evals randomNumbers of
             Inl e \<Rightarrow> Some e
           | Inr (foldedDigests, foldedEvals) \<Rightarrow>
               if G1 srs = [] then Some (Panic ''index out of range'')
               else
                 let foldedEvalsCommit = ScalarMultiplication (G1 srs ! 0) foldedEvals;
                     foldedDigests1 = foldedDigests - foldedEvalsCommit;
                     randomNumbers' = map2 (\<lambda>r pr. r * Point pr) randomNumbers proofs;
                     foldedPointsQuotients =
                       (case MultiExp quotients randomNumbers' of Inl err \<Rightarrow> 0 | Inr r \<Rightarrow> r);
                     foldedDigests2 = foldedDigests1 + foldedPointsQuotients;
                     foldedQuotients' = - foldedQuotients
                 in case PairingCheck [foldedDigests2, foldedQuotients'] [fst (G2 srs), snd (G2 srs)] of
                      Inl err \<Rightarrow> Some err
                    | Inr check \<Rightarrow> if \<not> check then Some ErrVerifyOpeningProof else None)"

section \<open>KZG: batch opening at a single point\<close>

text \<open>
  The size checks of lines 262-273; \<open>largestPoly\<close> is a Go \<^verbatim>\<open>int\<close> that starts at \<open>-1\<close>.
\<close>

fun check_sizes :: "'a list list \<Rightarrow> 'a SRS \<Rightarrow> 'a Domain \<Rightarrow> int \<Rightarrow> error + int" where
  "check_sizes [] srs domain largestPoly = Inr largestPoly"
| "check_sizes (p # ps) srs domain largestPoly =
     (if length p = 0 \<or> length p > length (G1 srs) then Inl ErrInvalidPolynomialSize
      else if int (length p) > int_of_uint64 (Cardinality domain) then Inl ErrInvalidDomain
      else check_sizes ps srs domain (if int (length p) > largestPoly then int (length p) else largestPoly))"

text \<open>
  The evaluation goroutines of lines 281-286: goroutine \<open>at'\<close> stores
  \<^verbatim>\<open>polynomials[at].Eval(point)\<close> in slot \<open>at'\<close> of \<open>ClaimedValues\<close>. \<open>sched\<close> lists the goroutines
  in the order in which the scheduler runs them.
\<close>

fun run_evals :: "nat list \<Rightarrow> 'a::field list list \<Rightarrow> 'a \<Rightarrow> 'a list \<Rightarrow> 'a list" where
  "run_evals [] polynomials point cv = cv"
| "run_evals (at' # sched) polynomials point cv =
     run_evals sched polynomials point (cv[at' := Eval (polynomials ! at') point])"

text \<open>
  Lines 303-307: \<^verbatim>\<open>for i := nbDigests - 2; i >= 0; i-- { s.Mul(&s, &gamma).Add(&s, &cv[i]) }\<close>; the
  counter is \<open>i + 1\<close>.
\<close>

fun sum_gamma_evals :: "'a::field \<Rightarrow> 'a list \<Rightarrow> nat \<Rightarrow> 'a \<Rightarrow> 'a" where
  "sum_gamma_evals gamma cv 0 s = s"
| "sum_gamma_evals gamma cv (Suc i) s = sum_gamma_evals gamma cv i (s * gamma + cv ! i)"

text \<open>Lines 320-323: the inner loop over the coefficients of \<open>polynomials[i]\<close>, from \<open>j\<close> on.\<close>

fun add_scaled :: "'a::field list \<Rightarrow> 'a \<Rightarrow> nat \<Rightarrow> nat \<Rightarrow> 'a list \<Rightarrow> 'a list" where
  "add_scaled p gammaN j 0 acc = acc"
| "add_scaled p gammaN j (Suc k) acc =
     add_scaled p gammaN (Suc j) k (acc[j := acc ! j + p ! j * gammaN])"

text \<open>Lines 319-325: the outer loop over \<open>polynomials[1:]\<close>.\<close>

fun sum_gamma_pols :: "'a::field list list \<Rightarrow> 'a \<Rightarrow> 'a \<Rightarrow> 'a list \<Rightarrow> 'a list" where
  "sum_gamma_pols [] gamma gammaN acc = acc"
| "sum_gamma_pols (p # ps) gamma gammaN acc =
     sum_gamma_pols ps gamma (gammaN * gamma) (add_scaled p gammaN 0 (length p) acc)"

text \<open>
  \<open>BatchOpenSinglePoint\<close> (lines 255-338). With no polynomial, \<open>largestPoly\<close> is \<open>-1\<close> and
  \<open>nbDigests - 1\<close> is \<open>-1\<close>: the allocation of line 315 and the read of line 303 abort.
\<close>

definition BatchOpenSinglePoint ::
  "('a::field, 'h, 't) fiatshamir \<Rightarrow> nat list \<Rightarrow> nat \<Rightarrow> 'a list list \<Rightarrow> 'a list \<Rightarrow> 'a \<Rightarrow> 'h
     \<Rightarrow> 'a Domain \<Rightarrow> 'a SRS \<Rightarrow> (error + 'a BatchOpeningProof) \<times> 'h" where
  "BatchOpenSinglePoint fs sched numCpus polynomials digests point hf domain srs =
     (let nbDigests = length digests in
      if nbDigests \<noteq> length polynomials then (Inl ErrInvalidNbDigests, hf)
      else
        case check_sizes polynomials srs domain (- 1) of
          Inl e \<Rightarrow> (Inl e, hf)
        | Inr largestPoly \<Rightarrow>
            let claimedValues = run_evals sched polynomials point (replicate (length polynomials) 0) in
            case deriveGamma fs point digests hf of
              (Inl err, hf') \<Rightarrow> (Inl err, hf')
            | (Inr gamma, hf') \<Rightarrow>
                if largestPoly < 0 \<or> nbDigests = 0 then (Inl (Panic ''makeslice: len out of range''), hf')
                else
                  let sumGammaiTimesEval =
                        sum_gamma_evals gamma claimedValues (nbDigests - 1) (claimedValues ! (nbDigests - 1));
                      sumGammaiTimesPol0 =
                        copy (make_slice (nat largestPoly) (Cardinality domain)) (polynomials ! 0);
                      sumGammaiTimesPol =
                        sumGammaiTimesPol0\<lparr>arr := sum_gamma_pols (tl polynomials) gamma gamma (arr sumGammaiTimesPol0)\<rparr>
                  in case dividePolyByXminusA domain sumGammaiTimesPol sumGammaiTimesEval point of
                       Inl e \<Rightarrow> (Inl e, hf')
                     | Inr h \<Rightarrow>
                         (case Commit h srs [] numCpus of
                            Inl err \<Rightarrow> (Inl err, hf')
                          | Inr hCommit \<Rightarrow>
                              (Inr \<lparr>BatchH = hCommit, BatchPoint = point, ClaimedValues = claimedValues\<rparr>, hf')))"

section \<open>KZG: the opening on an explicit store\<close>

text \<open>
  \<open>Open\<close> copies its input before the in-place division. To state what the call leaves of
  the caller's memory, the same code is written over a store of backing arrays: a slice is
  a reference (array, offset, length, capacity) into the store, \<^verbatim>\<open>make\<close> allocates a fresh
  zeroed array, \<^verbatim>\<open>copy\<close> and the division loop write through the reference.
\<close>

type_synonym 'a heap = "'a list list"

record slice_ref =
  sbase :: nat
  soff :: nat
  slen :: nat
  scap :: nat

definition heap_make :: "nat \<Rightarrow> nat \<Rightarrow> 'a::zero heap \<Rightarrow> slice_ref \<times> 'a heap" where
  "heap_make l c h = (\<lparr>sbase = length h, soff = 0, slen = l, scap = c\<rparr>, h @ [replicate c 0])"

definition heap_read :: "'a heap \<Rightarrow> slice_ref \<Rightarrow> 'a list" where
  "heap_read h s = take (slen s) (drop (soff s) (h ! sbase s))"

definition heap_write :: "slice_ref \<Rightarrow> 'a list \<Rightarrow> 'a heap \<Rightarrow> 'a heap" where
  "heap_write s xs h =
     h[sbase s := take (soff s) (h ! sbase s) @ xs @ drop (soff s + length xs) (h ! sbase s)]"

definition heap_copy :: "slice_ref \<Rightarrow> slice_ref \<Rightarrow> 'a heap \<Rightarrow> 'a heap" where
  "heap_copy dst src h = heap_write dst (take (min (slen dst) (slen src)) (heap_read h src)) h"

definition dividePolyByXminusA_heap ::
  "'a::field Domain \<Rightarrow> slice_ref \<Rightarrow> 'a \<Rightarrow> 'a \<Rightarrow> 'a heap \<Rightarrow> (error + slice_ref) \<times> 'a heap" where
  "dividePolyByXminusA_heap d f fa a h =
     (let degree = int (slen f) - 1 in
      if Cardinality d > scap f then (Inl (Panic ''slice bounds out of range''), h)
      else
        let f' = f\<lparr>slen := Cardinality d\<rparr> in
        if slen f' = 0 then (Inl (Panic ''index out of range''), h)
        else
          let w = heap_read h f';
              w2 = w[0 := w ! 0 - fa];
              w3 = snd (divide_loop a (length w2) 0 w2);
              h' = heap_write f' w3 h
          in if degree < 0 then (Inl (Panic ''slice bounds out of range''), h')
             else (Inr (f'\<lparr>slen := nat degree\<rparr>), h'))"

definition Open_heap ::
  "slice_ref \<Rightarrow> 'a::field \<Rightarrow> 'a Domain \<Rightarrow> 'a SRS \<Rightarrow> nat \<Rightarrow> 'a heap
     \<Rightarrow> (error + 'a OpeningProof) \<times> 'a heap" where
  "Open_heap p point domain srs numCpus h =
     (if slen p = 0 \<or> slen p > length (G1 srs) then (Inl ErrInvalidPolynomialSize, h)
      else if int (slen p) > int_of_uint64 (Cardinality domain) then (Inl ErrInvalidDomain, h)
      else
        let claimed = Eval (heap_read h p) point;
            (p', h1) = heap_make (slen p) (Cardinality domain) h;
            h2 = heap_copy p' p h1
        in case dividePolyByXminusA_heap domain p' claimed point h2 of
             (Inl e, h3) \<Rightarrow> (Inl e, h3)
           | (Inr hs, h3) \<Rightarrow>
               (case Commit (heap_read h3 hs) srs [] numCpus of
                  Inl err \<Rightarrow> (Inl err, h3)
                | Inr hCommit \<Rightarrow>
                    (Inr \<lparr>H = hCommit, Point = point, ClaimedValue = claimed\<rparr>, h3)))"

text \<open>A slice reference is valid in a store when its array exists and holds its capacity.\<close>

definition valid_ref :: "'a heap \<Rightarrow> slice_ref \<Rightarrow> bool" where
  "valid_ref h s = (sbase s < length h \<and> slen s \<le> scap s \<and> soff s + scap s \<le> length (h ! sbase s))"

section \<open>Ratio builder: data model and consumed primitives\<close>

datatype Basis = Canonical | Lagrange | LagrangeCoset

datatype Layout = Regular | BitReverse

record Form =
  Basis :: Basis
  Layout :: Layout

text \<open>
  A polynomial is its coefficient vector with its form; \<^verbatim>\<open>p.Layout\<close> is \<open>Layout (form p)\<close>. The
  builders receive pointers and convert the polynomials they point to in place, so the
  polynomials live in a store and the argument lists hold addresses. Every address holds a
  polynomial: the pointers are not nil.
\<close>

record 'a Polynomial =
  coefficients :: "'a list"
  form :: Form

type_synonym 'a store = "nat \<Rightarrow> 'a Polynomial"

datatype Decimation = DIT | DIF

text \<open>
  The domain machinery is consumed, not built: the conversion of a polynomial to the Lagrange
  basis, the construction of a domain, the transforms and the bit-reversal permutation are
  parameters of the model.
\<close>

record 'a iop_prims =
  ToLagrange :: "'a Domain \<Rightarrow> 'a Polynomial \<Rightarrow> 'a Polynomial"
  NewDomain :: "nat \<Rightarrow> 'a Domain"
  FFTInverse :: "'a Domain \<Rightarrow> 'a list \<Rightarrow> Decimation \<Rightarrow> 'a list"
  FFT :: "'a Domain \<Rightarrow> 'a list \<Rightarrow> Decimation \<Rightarrow> bool \<Rightarrow> 'a list"
  fft_BitReverse :: "'a list \<Rightarrow> 'a list"

definition BatchInvert :: "'a::field list \<Rightarrow> 'a list" where
  \<comment> \<open>Modelled from the spec: FieldArithmetic BatchInverse, every element inverted at the
      cost of one inversion. A zero element stays zero, as \<open>inverse 0 = 0\<close> in a HOL field.\<close>
  "BatchInvert xs = map inverse xs"

definition NewPolynomial :: "'a list \<Rightarrow> Form \<Rightarrow> 'a Polynomial" where
  \<comment> \<open>Modelled from the spec: a polynomial from a coefficient vector and its form tags.\<close>
  "NewPolynomial coeffs f = \<lparr>coefficients = coeffs, form = f\<rparr>"

text \<open>
  \<open>parallel.Execute\<close> hands index ranges \<open>(start, end)\<close> to workers. \<open>chunks\<close> lists the ranges in
  the order in which the workers run; a valid list covers \<open>0..<n\<close>, each index once.
\<close>

definition Execute :: "(nat \<Rightarrow> nat \<Rightarrow> 's \<Rightarrow> 's) \<Rightarrow> (nat \<times> nat) list \<Rightarrow> 's \<Rightarrow> 's" where
  \<comment> \<open>Modelled from the spec: parallel by index range, no cross-range dependency.\<close>
  "Execute work chunks s = fold (\<lambda>(start, end') s'. work start end' s') chunks s"

definition chunk_indices :: "(nat \<times> nat) list \<Rightarrow> nat list" where
  "chunk_indices chunks = concat (map (\<lambda>(start, end'). [start..<end']) chunks)"

definition valid_chunks :: "nat \<Rightarrow> (nat \<times> nat) list \<Rightarrow> bool" where
  "valid_chunks n chunks = (distinct (chunk_indices chunks) \<and> set (chunk_indices chunks) = {0..<n})"

subsection \<open>Bit reversal of an index\<close>

text \<open>
  \<^verbatim>\<open>bits.TrailingZeros\<close> and \<^verbatim>\<open>bits.Reverse64\<close> on 64-bit unsigned values, written on \<open>nat\<close> with
  the width explicit; \<^verbatim>\<open>x >> nn\<close> is \<open>x div 2 ^ nn\<close>.
\<close>

fun tz_loop :: "nat \<Rightarrow> nat \<Rightarrow> nat" where
  "tz_loop 0 x = 0"
| "tz_loop (Suc w) x = (if odd x then 0 else Suc (tz_loop w (x div 2)))"

definition TrailingZeros :: "nat \<Rightarrow> nat" where
  "TrailingZeros x = tz_loop 64 (x mod 2 ^ 64)"

fun rev_loop :: "nat \<Rightarrow> nat \<Rightarrow> nat \<Rightarrow> nat" where
  "rev_loop 0 x acc = acc"
| "rev_loop (Suc w) x acc = rev_loop w (x div 2) (2 * acc + x mod 2)"

definition Reverse64 :: "nat \<Rightarrow> nat" where
  "Reverse64 x = rev_loop 64 (x mod 2 ^ 64) 0"

text \<open>Lines 95 and 101: \<^verbatim>\<open>nn := uint64(64 - bits.TrailingZeros(uint(n)))\<close>, \<^verbatim>\<open>iRev := bits.Reverse64(uint64(i)) >> nn\<close>.\<close>

definition iRev_of :: "nat \<Rightarrow> nat \<Rightarrow> nat" where
  "iRev_of n i = Reverse64 i div 2 ^ (64 - TrailingZeros n)"

section \<open>Ratio builder: checks\<close>

text \<open>
  \<open>checkSize\<close> (lines 288-302). \<open>pols\<close> is the variadic list of lists. The inner loop runs
  \<open>j\<close> up to \<^verbatim>\<open>len(pols)\<close>, the number of lists, as the source does.
\<close>

fun checkSize_inner :: "'a store \<Rightarrow> nat list \<Rightarrow> nat \<Rightarrow> nat \<Rightarrow> nat \<Rightarrow> error option" where
  "checkSize_inner st row n j 0 = None"
| "checkSize_inner st row n j (Suc k) =
     (if j \<ge> length row then Some (Panic ''index out of range'')
      else if length (coefficients (st (row ! j))) \<noteq> n then Some ErrInconsistentSize
      else checkSize_inner st row n (Suc j) k)"

fun checkSize_outer :: "'a store \<Rightarrow> nat list list \<Rightarrow> nat \<Rightarrow> nat \<Rightarrow> nat \<Rightarrow> error option" where
  "checkSize_outer st pols n i 0 = None"
| "checkSize_outer st pols n i (Suc k) =
     (case checkSize_inner st (pols ! i) n 0 (length pols) of
        Some e \<Rightarrow> Some e
      | None \<Rightarrow> checkSize_outer st pols n (Suc i) k)"

definition checkSize :: "'a store \<Rightarrow> nat list list \<Rightarrow> error option" where
  "checkSize st pols =
     (let m = length pols in
      if pols = [] then Some (Panic ''index out of range'')
      else if pols ! 0 = [] then Some (Panic ''index out of range'')
      else
        let n = length (coefficients (st (pols ! 0 ! 0)))
        in checkSize_outer st pols n 0 m)"

text \<open>
  \<open>buildDomain\<close> (lines 306-324); \<open>n\<close> is a slice length, \<open>None\<close> the nil domain. The test
  \<^verbatim>\<open>n&(n-1) != 0\<close> is on Go's \<^verbatim>\<open>int\<close>.
\<close>

definition buildDomain :: "'a iop_prims \<Rightarrow> nat \<Rightarrow> 'a Domain option \<Rightarrow> error + 'a Domain" where
  "buildDomain prims n domain =
     (if and (int n) (int n - 1) \<noteq> 0 then Inl ErrSizeNotPowerOfTwo
      else
        let domain' = (case domain of None \<Rightarrow> NewDomain prims n | Some d \<Rightarrow> d)
        in if Cardinality domain' \<noteq> n then Inl ErrInconsistentSizeDomain
           else Inr domain')"

text \<open>\<open>putInExpectedFormFromLagrangeRegular\<close> (lines 259-284).\<close>

definition putInExpectedFormFromLagrangeRegular ::
  "'a iop_prims \<Rightarrow> 'a Polynomial \<Rightarrow> 'a Domain \<Rightarrow> Form \<Rightarrow> 'a Polynomial" where
  "putInExpectedFormFromLagrangeRegular prims p domain expectedForm =
     (let p1 = p\<lparr>form := \<lparr>Basis = Basis expectedForm, Layout = Layout expectedForm\<rparr>\<rparr> in
      if Basis expectedForm = Canonical then
        (let c1 = FFTInverse prims domain (coefficients p1) DIF;
             c2 = (if Layout expectedForm = Regular then fft_BitReverse prims c1 else c1)
         in p1\<lparr>coefficients := c2\<rparr>)
      else if Basis expectedForm = LagrangeCoset then
        (let c1 = FFTInverse prims domain (coefficients p1) DIF;
             c2 = FFT prims domain c1 DIT True;
             c3 = (if Layout expectedForm = BitReverse then fft_BitReverse prims c2 else c2)
         in p1\<lparr>coefficients := c3\<rparr>)
      else if Layout expectedForm = BitReverse then
        p1\<lparr>coefficients := fft_BitReverse prims (coefficients p1)\<rparr>
      else p1)"

section \<open>Ratio builder: shuffled vectors\<close>

text \<open>
  Lines 103-118, the products over the polynomials at step \<open>i\<close>. The two lists have the same
  length when the loop is reached; \<open>b\<close> and \<open>d\<close> are threaded as a pair.
\<close>

fun sv_terms ::
  "'a::field \<Rightarrow> nat \<Rightarrow> nat \<Rightarrow> ('a Polynomial \<times> 'a Polynomial) list \<Rightarrow> 'a \<times> 'a \<Rightarrow> error + ('a \<times> 'a)" where
  "sv_terms beta i iRev [] bd = Inr bd"
| "sv_terms beta i iRev ((pn, pd) # rest) (b, d) =
     (let ni = (if Layout (form pn) = BitReverse then iRev else i);
          di = (if Layout (form pd) = BitReverse then iRev else i)
      in if ni \<ge> length (coefficients pn) \<or> di \<ge> length (coefficients pd)
         then Inl (Panic ''index out of range'')
         else sv_terms beta i iRev rest
                (b * (beta - coefficients pn ! ni), d * (beta - coefficients pd ! di)))"

text \<open>Lines 96-125, the loop over \<open>i\<close> from the given index, \<open>k\<close> iterations left.\<close>

fun sv_loop ::
  "'a::field \<Rightarrow> nat \<Rightarrow> ('a Polynomial \<times> 'a Polynomial) list \<Rightarrow> nat \<Rightarrow> nat \<Rightarrow> 'a list \<times> 'a list
     \<Rightarrow> error + ('a list \<times> 'a list)" where
  "sv_loop beta n pairs i 0 ct = Inr ct"
| "sv_loop beta n pairs i (Suc k) (coeffs, t) =
     (case sv_terms beta i (iRev_of n i) pairs (1, 1) of
        Inl e \<Rightarrow> Inl e
      | Inr (b, d) \<Rightarrow>
          sv_loop beta n pairs (Suc i) k
            (coeffs[Suc i := coeffs ! i * b], t[Suc i := t ! i * d]))"

text \<open>Lines 128-130: \<^verbatim>\<open>for i := 1; i < n; i++ { coeffs[i].Mul(&coeffs[i], &t[i]) }\<close>.\<close>

fun mul_from :: "nat \<Rightarrow> nat \<Rightarrow> 'a::field list \<Rightarrow> 'a list \<Rightarrow> 'a list" where
  "mul_from i 0 coeffs t = coeffs"
| "mul_from i (Suc k) coeffs t = mul_from (Suc i) k (coeffs[i := coeffs ! i * t ! i]) t"

text \<open>Lines 82-85: the conversions in place, numerator and denominator in turn.\<close>

fun toLagrange_pairs :: "'a iop_prims \<Rightarrow> 'a Domain \<Rightarrow> (nat \<times> nat) list \<Rightarrow> 'a store \<Rightarrow> 'a store" where
  "toLagrange_pairs prims domain [] st = st"
| "toLagrange_pairs prims domain ((pn, pd) # rest) st =
     (let st1 = st(pn := ToLagrange prims domain (st pn));
          st2 = st1(pd := ToLagrange prims domain (st1 pd))
      in toLagrange_pairs prims domain rest st2)"

text \<open>
  \<open>BuildRatioShuffledVectors\<close> (lines 56-138). The result is the new polynomial and the
  store, in which the inputs have been converted.
\<close>

definition BuildRatioShuffledVectors ::
  "'a::field iop_prims \<Rightarrow> nat list \<Rightarrow> nat list \<Rightarrow> 'a \<Rightarrow> Form \<Rightarrow> 'a Domain option \<Rightarrow> 'a store
     \<Rightarrow> (error + 'a Polynomial) \<times> 'a store" where
  "BuildRatioShuffledVectors prims numerator denominator beta expectedForm domain st =
     (if length numerator \<noteq> length denominator then (Inl ErrNumberPolynomials, st)
      else
        case checkSize st [numerator, denominator] of
          Some err \<Rightarrow> (Inl err, st)
        | None \<Rightarrow>
            let n = length (coefficients (st (numerator ! 0))) in
            case buildDomain prims n domain of
              Inl err \<Rightarrow> (Inl err, st)
            | Inr domain' \<Rightarrow>
                let st' = toLagrange_pairs prims domain' (zip numerator denominator) st in
                if n = 0 then (Inl (Panic ''index out of range''), st')
                else
                  let coeffs0 = (replicate n 0)[0 := 1];
                      t0 = (replicate n 0)[0 := 1];
                      pairs = map (\<lambda>(pn, pd). (st' pn, st' pd)) (zip numerator denominator)
                  in case sv_loop beta n pairs 0 (n - 1) (coeffs0, t0) of
                       Inl e \<Rightarrow> (Inl e, st')
                     | Inr (coeffs1, t1) \<Rightarrow>
                         let t2 = BatchInvert t1;
                             coeffs2 = mul_from 1 (n - 1) coeffs1 t2;
                             res = NewPolynomial coeffs2 expectedForm
                         in (Inr (putInExpectedFormFromLagrangeRegular prims res domain' expectedForm), st'))"

section \<open>Ratio builder: copy constraint\<close>

text \<open>
  \<open>getSupportIdentityPermutation\<close> (lines 331-376). Line 339 starts the loop at
  \<^verbatim>\<open>(sizePoly / 2) - 1\<close>, which is \<open>-1\<close> for a domain of one point: the first iteration then
  reads \<^verbatim>\<open>res[-1]\<close>. The per-coset goroutines write disjoint blocks and read the first block
  only; they are run here by increasing \<open>i\<close>.
\<close>

fun support_loop :: "'a::field \<Rightarrow> nat \<Rightarrow> nat \<Rightarrow> 'a list \<Rightarrow> error + 'a list" where
  "support_loop gen i 0 res = Inr res"
| "support_loop gen i (Suc k) res =
     (if Suc i \<ge> length res then Inl (Panic ''index out of range'')
      else support_loop gen (Suc i) k (res[Suc i := res ! i * gen]))"

definition coset_of :: "'a::field Domain \<Rightarrow> nat \<Rightarrow> 'a" where
  "coset_of domain i =
     (if i = 1 then FrMultiplicativeGen domain
      else if length (CosetTable domain) > i then CosetTable domain ! i
      else FrMultiplicativeGen domain ^ i)"

fun coset_fill :: "'a::field \<Rightarrow> nat \<Rightarrow> nat \<Rightarrow> nat \<Rightarrow> nat \<Rightarrow> 'a list \<Rightarrow> 'a list" where
  "coset_fill coset i sizePoly j 0 res = res"
| "coset_fill coset i sizePoly j (Suc k) res =
     coset_fill coset i sizePoly (Suc j) k (res[i * sizePoly + j := res ! j * coset])"

fun coset_copies :: "'a::field Domain \<Rightarrow> nat \<Rightarrow> nat \<Rightarrow> nat \<Rightarrow> 'a list \<Rightarrow> 'a list" where
  "coset_copies domain sizePoly i 0 res = res"
| "coset_copies domain sizePoly i (Suc k) res =
     coset_copies domain sizePoly (Suc i) k (coset_fill (coset_of domain i) i sizePoly 0 sizePoly res)"

definition getSupportIdentityPermutation :: "nat \<Rightarrow> 'a::field Domain \<Rightarrow> error + 'a list" where
  "getSupportIdentityPermutation nbCopies domain =
     (let res0 = replicate (nbCopies * Cardinality domain) 0;
          sizePoly = Cardinality domain
      in if Twiddles domain = [] then Inl (Panic ''index out of range'')
         else
           let tw = Twiddles domain ! 0;
               k = min (length res0) (length tw);
               res1 = take k tw @ drop k res0
           in if sizePoly = 1 then Inl (Panic ''index out of range [-1]'')
              else
                case support_loop (Generator domain) (sizePoly div 2 - 1)
                       (sizePoly - 1 - (sizePoly div 2 - 1)) res1 of
                  Inl e \<Rightarrow> Inl e
                | Inr res2 \<Rightarrow>
                    if nbCopies \<le> 1 then Inr res2
                    else Inr (coset_copies domain sizePoly 1 (nbCopies - 1) res2))"

text \<open>
  Lines 194-210, the products over the entries at step \<open>i\<close>; \<open>j\<close> is the position of the
  entry. \<open>permutation\<close> is an \<^verbatim>\<open>[]int64\<close>.
\<close>

fun cc_terms ::
  "'a::field \<Rightarrow> 'a \<Rightarrow> 'a list \<Rightarrow> int list \<Rightarrow> nat \<Rightarrow> nat \<Rightarrow> nat \<Rightarrow> nat \<Rightarrow> 'a Polynomial list \<Rightarrow> 'a \<times> 'a
     \<Rightarrow> error + ('a \<times> 'a)" where
  "cc_terms beta gamma ids permutation n i iRev j [] bd = Inr bd"
| "cc_terms beta gamma ids permutation n i iRev j (p # ps) (b, d) =
     (let idx = (if Layout (form p) = BitReverse then iRev else i) in
      if i + j * n \<ge> length ids \<or> idx \<ge> length (coefficients p) then Inl (Panic ''index out of range'')
      else
        let a = beta * ids ! (i + j * n) + gamma + coefficients p ! idx in
        if i + j * n \<ge> length permutation then Inl (Panic ''index out of range'')
        else
          let k = permutation ! (i + j * n) in
          if k < 0 \<or> nat k \<ge> length ids then Inl (Panic ''index out of range'')
          else
            let c = beta * ids ! (nat k) + gamma + coefficients p ! idx
            in cc_terms beta gamma ids permutation n i iRev (Suc j) ps (b * a, d * c))"

text \<open>Lines 185-217, the work of one range: \<open>i\<close> from \<open>start\<close>, \<open>k\<close> iterations left.\<close>

fun cc_work_loop ::
  "'a::field \<Rightarrow> 'a \<Rightarrow> 'a list \<Rightarrow> int list \<Rightarrow> nat \<Rightarrow> 'a Polynomial list \<Rightarrow> nat \<Rightarrow> nat
     \<Rightarrow> error + ('a list \<times> 'a list) \<Rightarrow> error + ('a list \<times> 'a list)" where
  "cc_work_loop beta gamma ids permutation n polys i 0 s = s"
| "cc_work_loop beta gamma ids permutation n polys i (Suc k) s =
     (case s of
        Inl e \<Rightarrow> Inl e
      | Inr (coeffs, t) \<Rightarrow>
          (case cc_terms beta gamma ids permutation n i (iRev_of n i) 0 polys (1, 1) of
             Inl e \<Rightarrow> Inl e
           | Inr (b, d) \<Rightarrow>
               if Suc i \<ge> length coeffs \<or> Suc i \<ge> length t then Inl (Panic ''index out of range'')
               else cc_work_loop beta gamma ids permutation n polys (Suc i) k
                      (Inr (coeffs[Suc i := b], t[Suc i := d]))))"

definition cc_work ::
  "'a::field \<Rightarrow> 'a \<Rightarrow> 'a list \<Rightarrow> int list \<Rightarrow> nat \<Rightarrow> 'a Polynomial list \<Rightarrow> nat \<Rightarrow> nat
     \<Rightarrow> error + ('a list \<times> 'a list) \<Rightarrow> error + ('a list \<times> 'a list)" where
  "cc_work beta gamma ids permutation n polys start end' s =
     cc_work_loop beta gamma ids permutation n polys start (end' - start) s"

text \<open>
  Lines 221-231: \<^verbatim>\<open>for i := 2; i < n; i++ { x[i].Mul(&x[i], &x[i-1]) }\<close>, for \<open>coeffs\<close> (in a
  goroutine of its own) and for \<open>t\<close>.
\<close>

fun prefix_mul :: "nat \<Rightarrow> nat \<Rightarrow> 'a::field list \<Rightarrow> 'a list" where
  "prefix_mul i 0 xs = xs"
| "prefix_mul i (Suc k) xs = prefix_mul (Suc i) k (xs[i := xs ! i * xs ! (i - 1)])"

text \<open>
  Lines 241-249, the work of one range: the range is shifted by one, the slice
  \<^verbatim>\<open>t[start:end]\<close> is inverted as a batch and multiplied into \<open>coeffs\<close>.
\<close>

fun inv_mul_loop :: "nat \<Rightarrow> nat \<Rightarrow> nat \<Rightarrow> 'a::field list \<Rightarrow> 'a list \<Rightarrow> 'a list" where
  "inv_mul_loop start i 0 tInv coeffs = coeffs"
| "inv_mul_loop start i (Suc k) tInv coeffs =
     inv_mul_loop start (Suc i) k tInv (coeffs[i := coeffs ! i * tInv ! (i - start)])"

definition inv_work :: "'a::field list \<Rightarrow> nat \<Rightarrow> nat \<Rightarrow> 'a list \<Rightarrow> 'a list" where
  "inv_work t start end' coeffs =
     (let start1 = start + 1;
          end1 = end' + 1;
          tInv = BatchInvert (take (end1 - start1) (drop start1 t))
      in inv_mul_loop start1 start1 (end1 - start1) tInv coeffs)"

text \<open>Lines 171-173: the conversions in place.\<close>

fun toLagrange_all :: "'a iop_prims \<Rightarrow> 'a Domain \<Rightarrow> nat list \<Rightarrow> 'a store \<Rightarrow> 'a store" where
  "toLagrange_all prims domain [] st = st"
| "toLagrange_all prims domain (p # ps) st =
     toLagrange_all prims domain ps (st(p := ToLagrange prims domain (st p)))"

text \<open>
  \<open>BuildRatioCopyConstraint\<close> (lines 147-257). \<open>chunks1\<close> and \<open>chunks2\<close> are the ranges of the
  two \<open>parallel.Execute\<close> calls over \<open>n - 1\<close> iterations.
\<close>

definition BuildRatioCopyConstraint ::
  "'a::field iop_prims \<Rightarrow> (nat \<times> nat) list \<Rightarrow> (nat \<times> nat) list \<Rightarrow> nat list \<Rightarrow> int list \<Rightarrow> 'a \<Rightarrow> 'a
     \<Rightarrow> Form \<Rightarrow> 'a Domain option \<Rightarrow> 'a store \<Rightarrow> (error + 'a Polynomial) \<times> 'a store" where
  "BuildRatioCopyConstraint prims chunks1 chunks2 entries permutation beta gamma expectedForm domain st =
     (let nbPolynomials = length entries in
      case checkSize st [entries] of
        Some err \<Rightarrow> (Inl err, st)
      | None \<Rightarrow>
          let n = length (coefficients (st (entries ! 0))) in
          case buildDomain prims n domain of
            Inl err \<Rightarrow> (Inl err, st)
          | Inr domain' \<Rightarrow>
              let st' = toLagrange_all prims domain' entries st in
              case getSupportIdentityPermutation nbPolynomials domain' of
                Inl e \<Rightarrow> (Inl e, st')
              | Inr evaluationIDSmallDomain \<Rightarrow>
                  if n = 0 then (Inl (Panic ''index out of range''), st')
                  else
                    let coeffs0 = (replicate n 0)[0 := 1];
                        t0 = (replicate n 0)[0 := 1];
                        polys = map st' entries
                    in case Execute (cc_work beta gamma evaluationIDSmallDomain permutation n polys)
                              chunks1 (Inr (coeffs0, t0)) of
                         Inl e \<Rightarrow> (Inl e, st')
                       | Inr (coeffs1, t1) \<Rightarrow>
                           let coeffs2 = prefix_mul 2 (n - 2) coeffs1;
                               t2 = prefix_mul 2 (n - 2) t1;
                               coeffs3 = Execute (inv_work t2) chunks2 coeffs2;
                               res = NewPolynomial coeffs3 expectedForm
                           in (Inr (putInExpectedFormFromLagrangeRegular prims res domain' expectedForm), st'))"

section \<open>Reading a polynomial held in the Lagrange basis\<close>

text \<open>
  The value at \<open>\<omega>\<^sup>j\<close> of a polynomial held in the Lagrange basis on a domain of \<open>n\<close> points:
  its coefficient \<open>j\<close> in the regular layout, its coefficient at the bit-reversed index in
  the bit-reversed layout.
\<close>

definition lagrange_value :: "nat \<Rightarrow> 'a Polynomial \<Rightarrow> nat \<Rightarrow> 'a" where
  "lagrange_value n p j = coefficients p ! (if Layout (form p) = BitReverse then iRev_of n j else j)"

text \<open>The step terms of the two builders, as the spec writes them.\<close>

definition sv_numerator_term :: "'a::field \<Rightarrow> nat \<Rightarrow> 'a Polynomial list \<Rightarrow> nat \<Rightarrow> 'a" where
  "sv_numerator_term beta n polys j = prod_list (map (\<lambda>p. beta - lagrange_value n p j) polys)"

definition cc_factor :: "'a::field \<Rightarrow> 'a \<Rightarrow> 'a list \<Rightarrow> nat \<Rightarrow> 'a Polynomial list \<Rightarrow> nat \<Rightarrow> nat \<Rightarrow> 'a" where
  "cc_factor beta gamma ids n polys i j =
     beta * ids ! (i + j * n) + gamma + lagrange_value n (polys ! j) i"

definition cc_term :: "'a::field \<Rightarrow> 'a \<Rightarrow> 'a list \<Rightarrow> nat \<Rightarrow> 'a Polynomial list \<Rightarrow> nat \<Rightarrow> 'a" where
  "cc_term beta gamma ids n polys i =
     prod_list (map (cc_factor beta gamma ids n polys i) [0..<length polys])"

section \<open>Example inputs\<close>

text \<open>
  Concrete inputs over the rationals, used to evaluate the definitions: a reference string for
  \<open>\<alpha> = 3\<close> with three \<open>G1\<close> elements, the domain \<open>{1, -1}\<close> of order two, a transcript
  whose challenge is the number of bytes bound, and the same transcript over a hash whose
  write fails.
\<close>

definition example_srs :: "rat SRS" where
  "example_srs = \<lparr>G1 = [1, 3, 9], G2 = (1, 3)\<rparr>"

definition example_domain :: "rat Domain" where
  "example_domain = \<lparr>Cardinality = 2, Generator = - 1, Twiddles = [[1]],
     FrMultiplicativeGen = 3, CosetTable = [1, 3]\<rparr>"

definition example_fs :: "(rat, nat, byte list) fiatshamir" where
  "example_fs = \<lparr>
     NewTranscript = (\<lambda>h name. []),
     Bind = (\<lambda>t name bs. (None, t @ bs)),
     ComputeChallenge = (\<lambda>t name. (Inr t, t)),
     hash_state = (\<lambda>t. length t),
     Reset = (\<lambda>h. 0),
     MarshalFr = (\<lambda>x. [1]),
     MarshalG1 = (\<lambda>x. [2]),
     SetBytes = (\<lambda>bs. of_nat (length bs))\<rparr>"

definition failing_fs :: "(rat, nat, byte list) fiatshamir" where
  "failing_fs = example_fs\<lparr>ComputeChallenge := (\<lambda>t name. (Inl (ErrExternal ''hash: write failed''), t))\<rparr>"

text \<open>
  A schedule of the evaluation goroutines of \<open>BatchOpenSinglePoint\<close> runs each of the \<open>n\<close>
  goroutines once, in any order.
\<close>

definition valid_schedule :: "nat \<Rightarrow> nat list \<Rightarrow> bool" where
  "valid_schedule n sched = (distinct sched \<and> set sched = {0..<n})"

text \<open>
  Inputs of the ratio builders over the rationals, on the domain of order two. The
  primitives below serve polynomials that already are in the Lagrange basis and results
  asked in the Lagrange basis with the regular layout: the conversion leaves such a
  polynomial unchanged and no transform is reached.
\<close>

definition lagrange_prims :: "rat iop_prims" where
  "lagrange_prims = \<lparr>
     ToLagrange = (\<lambda>d p. p),
     NewDomain = (\<lambda>n. example_domain),
     FFTInverse = (\<lambda>d xs dec. xs),
     FFT = (\<lambda>d xs dec coset. xs),
     fft_BitReverse = (\<lambda>xs. map (\<lambda>i. xs ! iRev_of (length xs) i) [0..<length xs])\<rparr>"

definition lagrange_regular :: Form where
  "lagrange_regular = \<lparr>Basis = Lagrange, Layout = Regular\<rparr>"

definition poly2 :: "rat \<Rightarrow> rat \<Rightarrow> rat Polynomial" where
  "poly2 x y = \<lparr>coefficients = [x, y], form = lagrange_regular\<rparr>"

text \<open>
  A store of polynomials with two evaluations each, and one whose polynomial at address 9
  has four coefficients.
\<close>

definition example_store :: "rat store" where
  "example_store a = poly2 (of_nat a) (of_nat a + 1)"

definition mixed_store :: "rat store" where
  "mixed_store = example_store(9 := \<lparr>coefficients = [1, 2, 3, 4], form = lagrange_regular\<rparr>)"

section \<open>KZG: properties of commitment, opening and verification\<close>

subsection \<open>The split multi-scalar multiplication\<close>

lemma zip_take_drop: "zip xs ys = zip (take m xs) (take m ys) @ zip (drop m xs) (drop m ys)"
  by (metis append_take_drop_id take_zip drop_zip)

lemma MultiExp_split:
  assumes "length points = length scalars"
  shows "MultiExp points scalars =
    (case MultiExp (drop m points) (drop m scalars) of Inl err \<Rightarrow> Inl err
     | Inr p2 \<Rightarrow> (case MultiExp (take m points) (take m scalars) of Inl err1 \<Rightarrow> Inl err1 | Inr p1 \<Rightarrow> Inr (p1 + p2)))"
proof -
  have "sum_list (map2 ScalarMultiplication points scalars) =
        sum_list (map2 ScalarMultiplication (take m points) (take m scalars)) +
        sum_list (map2 ScalarMultiplication (drop m points) (drop m scalars))"
    by (subst zip_take_drop [of points scalars m]) simp
  with assms show ?thesis by (simp add: MultiExp_def)
qed

lemma Commit_numCpus: "Commit p srs [] numCpus = Commit p srs [] 0"
proof (cases "length p = 0 \<or> length p > length (G1 srs)")
  case True
  then show ?thesis by (simp add: Commit_def)
next
  case False
  then have len: "length (take (length p) (G1 srs)) = length p" by simp
  have tk: "take (length p div 2) (take (length p) (G1 srs)) = take (length p div 2) (G1 srs)"
    by (simp add: min_def)
  note split = MultiExp_split [OF len, of "length p div 2", unfolded tk]
  show ?thesis
    unfolding Commit_def Let_def using False
    by (simp only: if_False list.size simp_thms less_nat_zero_code split [symmetric] if_cancel)
qed

subsection \<open>Synthetic division and the quotient\<close>

lemma Eval_append: "Eval (xs @ ys) x = Eval xs x + x ^ length xs * Eval ys x"
  by (induction xs) (simp_all add: algebra_simps)

lemma Eval_replicate_zero [simp]: "Eval (replicate n 0) x = 0"
  by (induction n) simp_all

lemma Eval_take_Suc: "i < length f \<Longrightarrow> Eval (take (Suc i) f) x = Eval (take i f) x + x ^ i * f ! i"
  by (simp add: take_Suc_conv_app_nth Eval_append)

lemma length_divide_loop: "length (snd (divide_loop a k c f)) = length f"
  by (induction k arbitrary: c f) simp_all

lemma divide_loop_eval:
  "k \<le> length f \<Longrightarrow> divide_loop a k c f = (r, g) \<Longrightarrow>
   Eval (take k f) x + x ^ k * (c + (x - a) * Eval (drop k f) x) = r + (x - a) * Eval g x"
proof (induction k arbitrary: c f)
  case 0
  then show ?case by simp
next
  case (Suc i)
  let ?f = "f[i := c]"
  from Suc.prems have i: "i < length f" by simp
  have step: "divide_loop a i (f ! i + c * a) ?f = (r, g)"
    using Suc.prems by simp
  have dr: "drop i ?f = c # drop (Suc i) f"
    using i by (simp add: upd_conv_take_nth_drop)
  have "Eval (take i ?f) x + x ^ i * ((f ! i + c * a) + (x - a) * Eval (drop i ?f) x)
        = r + (x - a) * Eval g x"
    using Suc.IH [OF _ step] i by simp
  then show ?case
    using i by (simp add: Eval_take_Suc dr algebra_simps)
qed

lemma divide_loop_zeros:
  "k \<le> length f \<Longrightarrow> divide_loop a k c f = (r, g) \<Longrightarrow>
   (\<forall>j. L \<le> j \<and> j < length f \<longrightarrow> f ! j = 0) \<Longrightarrow>
   (L \<le> k \<longrightarrow> c = 0) \<Longrightarrow>
   (\<forall>j. k \<le> j \<and> L - 1 \<le> j \<and> j < length f \<longrightarrow> f ! j = 0) \<Longrightarrow>
   (\<forall>j. L - 1 \<le> j \<and> j < length f \<longrightarrow> g ! j = 0)"
proof (induction k arbitrary: c f)
  case 0
  then show ?case by simp
next
  case (Suc i)
  let ?f = "f[i := c]"
  from Suc.prems have i: "i < length f" by simp
  have step: "divide_loop a i (f ! i + c * a) ?f = (r, g)"
    using Suc.prems by simp
  have 1: "\<forall>j. L \<le> j \<and> j < length ?f \<longrightarrow> ?f ! j = 0"
    using Suc.prems(3,4) i by (auto simp: nth_list_update)
  have 2: "L \<le> i \<longrightarrow> f ! i + c * a = 0"
    using Suc.prems(3,4) i by auto
  have 3: "\<forall>j. i \<le> j \<and> L - 1 \<le> j \<and> j < length ?f \<longrightarrow> ?f ! j = 0"
  proof (intro allI impI)
    fix j assume j: "i \<le> j \<and> L - 1 \<le> j \<and> j < length ?f"
    show "?f ! j = 0"
    proof (cases "j = i")
      case True
      then have "L \<le> Suc i" using j by auto
      then have "c = 0" using Suc.prems(4) by simp
      then show ?thesis using True i by simp
    next
      case False
      then have "Suc i \<le> j" using j by auto
      then show ?thesis using Suc.prems(5) j False by simp
    qed
  qed
  have "\<forall>j. L - 1 \<le> j \<and> j < length ?f \<longrightarrow> g ! j = 0"
    using Suc.IH [OF _ step 1 2 3] i by simp
  then show ?case by simp
qed

lemma Eval_take_zeros:
  "(\<forall>j. n \<le> j \<and> j < length g \<longrightarrow> g ! j = 0) \<Longrightarrow> Eval (take n g) x = Eval g x"
proof -
  assume z: "\<forall>j. n \<le> j \<and> j < length g \<longrightarrow> g ! j = 0"
  have "drop n g = replicate (length g - n) 0"
    using z by (intro nth_equalityI) auto
  then have "Eval (drop n g) x = 0" by simp
  moreover have "Eval g x = Eval (take n g) x + x ^ length (take n g) * Eval (drop n g) x"
    using Eval_append [of "take n g" "drop n g" x] by (simp only: append_take_drop_id)
  ultimately show ?thesis by simp
qed

lemma mul_chain_powers: "mul_chain x prev k = map (\<lambda>i. prev * x ^ Suc i) [0..<k]"
proof (induction k arbitrary: prev)
  case 0
  then show ?case by simp
next
  case (Suc k)
  have "[0..<Suc k] = 0 # map Suc [0..<k]"
    by (simp add: upt_conv_Cons map_Suc_upt del: upt_Suc)
  then show ?case
    using Suc.IH [of "prev * x"] by (simp add: mult.assoc del: upt_Suc)
qed

lemma NewSRS_G1:
  "NewSRS n alpha = Inr srs \<Longrightarrow> G1 srs = map (\<lambda>i. alpha ^ i) [0..<n] \<and> G2 srs = (1, alpha)"
proof -
  assume a: "NewSRS n alpha = Inr srs"
  then have n: "2 \<le> n" by (auto simp: NewSRS_def split: if_splits)
  then obtain k where k: "n = Suc (Suc k)" by (cases n; cases "n - 1") auto
  have u: "[0..<Suc (Suc k)] = 0 # 1 # map (\<lambda>i. Suc (Suc i)) [0..<k]"
    by (induction k) simp_all
  show ?thesis
    using a unfolding k u
    by (auto simp: NewSRS_def Let_def BatchScalarMultiplicationG1_def ScalarMultiplication_def
        mul_chain_powers comp_def simp del: upt_Suc)
qed

lemma MultiExp_powers_aux:
  "sum_list (map2 ScalarMultiplication (map (\<lambda>i. alpha ^ (i + k)) [0..<length h]) h) = alpha ^ k * Eval h alpha"
proof (induction h arbitrary: k)
  case Nil
  then show ?case by simp
next
  case (Cons c cs)
  have u: "[0..<length (c # cs)] = 0 # map Suc [0..<length cs]"
    by (simp add: upt_conv_Cons map_Suc_upt del: upt_Suc)
  show ?case
    unfolding u using Cons.IH [of "Suc k"]
    by (simp add: ScalarMultiplication_def comp_def algebra_simps del: upt_Suc)
qed

lemma MultiExp_powers:
  "length h \<le> n \<Longrightarrow> MultiExp (take (length h) (map (\<lambda>i. alpha ^ i) [0..<n])) h = Inr (Eval h alpha)"
  using MultiExp_powers_aux [of alpha 0 h]
  by (simp add: MultiExp_def take_map min_def)

lemma Commit_powers:
  "G1 srs = map (\<lambda>i. alpha ^ i) [0..<n] \<Longrightarrow> h \<noteq> [] \<Longrightarrow> length h \<le> n \<Longrightarrow>
   Commit h srs [] numCpus = Inr (Eval h alpha)"
  by (subst Commit_numCpus) (simp add: Commit_def MultiExp_powers)

lemma Commit_opt: "Commit p srs opt numCpus = Commit p srs [] 0"
  by (cases "opt = []") (simp_all add: Commit_numCpus [of p srs numCpus], simp add: Commit_def)

lemma Eval_update_0: "q \<noteq> [] \<Longrightarrow> Eval (q[0 := q ! 0 - fa]) x = Eval q x - fa"
  by (cases q) simp_all

lemma dividePolyByXminusA_quotient:
  assumes arr: "arr f = q @ replicate (Cardinality d - length q) 0"
    and len: "len f = length q"
    and q: "1 \<le> length q" "length q \<le> Cardinality d"
    and fa: "fa = Eval q a"
  shows "\<exists>h. dividePolyByXminusA d f fa a = Inr h \<and> length h = length q - 1 \<and>
             (\<forall>x. Eval q x - fa = (x - a) * Eval h x)"
proof -
  let ?C = "Cardinality d"
  let ?F = "arr f"
  let ?f2 = "?F[0 := ?F ! 0 - fa]"
  obtain r g where rg: "divide_loop a (length ?f2) 0 ?f2 = (r, g)"
    by (cases "divide_loop a (length ?f2) 0 ?f2") blast
  have lenF: "length ?F = ?C" using arr q by simp
  have F0: "?F \<noteq> []" using lenF q by auto
  have lg: "length g = ?C"
    using length_divide_loop [of a "length ?f2" 0 ?f2] rg lenF by simp
  have evF: "Eval ?F x = Eval q x" for x
    by (simp add: arr Eval_append)
  have ev2: "Eval ?f2 x = Eval q x - fa" for x
    using Eval_update_0 [OF F0] evF by simp
  have main: "Eval q x - fa = r + (x - a) * Eval g x" for x
    using divide_loop_eval [OF _ rg, of x] ev2 [of x] by simp
  have "r = 0" using main [of a] fa by simp
  have z2: "\<forall>j. length q \<le> j \<and> j < length ?f2 \<longrightarrow> ?f2 ! j = 0"
    using q by (auto simp: arr nth_append nth_list_update)
  have zg: "\<forall>j. length q - 1 \<le> j \<and> j < length g \<longrightarrow> g ! j = 0"
    using divide_loop_zeros [OF _ rg z2] z2 lg lenF by auto
  let ?h = "take (length q - 1) g"
  have evh: "Eval ?h x = Eval g x" for x
    using Eval_take_zeros [OF zg] .
  have qne: "q \<noteq> []" using q by auto
  have dg: "nat (int (length q) - 1) = length q - 1" by simp
  have res: "dividePolyByXminusA d f fa a = Inr ?h"
    using q lenF F0 rg lg qne by (simp add: dividePolyByXminusA_def Let_def len dg del: of_nat_diff)
  have "length ?h = length q - 1" using lg q by simp
  moreover have "\<forall>x. Eval q x - fa = (x - a) * Eval ?h x"
    using main \<open>r = 0\<close> evh by simp
  ultimately show ?thesis using res by blast
qed

lemma int_of_uint64_small: "x < 2 ^ 63 \<Longrightarrow> int_of_uint64 x = int x"
  by (simp add: int_of_uint64_def)

lemma Open_Verify_succeeds:
  assumes srs: "NewSRS n alpha = Inr srs"
    and p: "2 \<le> length p" "length p \<le> length (G1 srs)" "length p \<le> Cardinality d"
    and d: "Cardinality d < 2 ^ 63"
  shows "\<exists>c pr. Commit p srs opt numCpus = Inr c \<and> Open p z d srs numCpus' = Inr pr \<and>
                 Verify c pr srs = None"
proof -
  note G = NewSRS_G1 [OF srs]
  have n: "length (G1 srs) = n" using G by simp
  have pne: "p \<noteq> []" using p by auto
  have c: "Commit p srs opt numCpus = Inr (Eval p alpha)"
    using Commit_powers [of srs alpha n p 0] G p pne by (subst Commit_opt) auto
  let ?f = "copy (make_slice (length p) (Cardinality d)) p"
  have arr: "arr ?f = p @ replicate (Cardinality d - length p) 0"
    using p by (simp add: copy_def make_slice_def Let_def min_def)
  have len: "len ?f = length p"
    by (simp add: copy_def make_slice_def Let_def)
  obtain h where h: "dividePolyByXminusA d ?f (Eval p z) z = Inr h"
      "length h = length p - 1" "\<forall>x. Eval p x - Eval p z = (x - z) * Eval h x"
    using dividePolyByXminusA_quotient [OF arr len _ p(3) refl] p(1) by auto
  have hne: "h \<noteq> []" "length h \<le> n" using h(2) p n by auto
  have hc: "Commit h srs [] numCpus' = Inr (Eval h alpha)"
    using Commit_powers [of srs alpha n h numCpus'] G hne by auto
  let ?pr = "\<lparr>H = Eval h alpha, Point = z, ClaimedValue = Eval p z\<rparr>"
  have op: "Open p z d srs numCpus' = Inr ?pr"
    using p d h(1) hc pne by (simp add: Open_def Let_def int_of_uint64_small)
  have n2: "2 \<le> n" using srs by (auto simp: NewSRS_def split: if_splits)
  have G0: "G1 srs \<noteq> []" "G1 srs ! 0 = 1"
    using G n2 by (auto simp: nth_map)
  have "Eval p alpha - Eval p z = (alpha - z) * Eval h alpha"
    using h(3) by blast
  then have v: "Verify (Eval p alpha) ?pr srs = None"
    using G0 G by (simp add: Verify_def Let_def PairingCheck_def ScalarMultiplication_def algebra_simps)
  show ?thesis using c op v by blast
qed

subsection \<open>Claims on commitment and opening\<close>

lemma example_srs_NewSRS: "NewSRS 3 (3::rat) = Inr example_srs"
  by (simp add: NewSRS_def example_srs_def Let_def BatchScalarMultiplicationG1_def
      ScalarMultiplication_def numeral_3_eq_3)

text \<open>
  C3: for every polynomial \<open>p\<close> accepted by \<open>Commit\<close> (\<open>1 \<le> len(p) \<le> len(SRS.G1)\<close>), the two-way
  split path (no limiter, more than 16 CPUs) returns exactly the group element of the single
  unsplit multi-scalar multiplication (the path taken with at most 16 CPUs), and it returns
  a value, not an error.
\<close>

theorem Commit_split_equiv:
  assumes "1 \<le> length p" "length p \<le> length (G1 srs)" "16 < numCpus" "numCpus' \<le> 16"
  shows "Commit p srs [] numCpus = Commit p srs [] numCpus' \<and>
         Commit p srs [] numCpus = MultiExp (take (length p) (G1 srs)) p \<and>
         (\<exists>c. Commit p srs [] numCpus = Inr c)"
proof -
  have a: "Commit p srs [] numCpus = Commit p srs [] numCpus'"
    by (simp add: Commit_numCpus [of p srs numCpus] Commit_numCpus [of p srs numCpus'])
  have b: "Commit p srs [] numCpus' = MultiExp (take (length p) (G1 srs)) p"
    using assms by (auto simp: Commit_def)
  have c: "\<exists>c. MultiExp (take (length p) (G1 srs)) p = Inr c"
    using assms by (simp add: MultiExp_def)
  show ?thesis using a b c by simp
qed

theorem Commit_split_equiv_witness:
  "Commit [5, 7, 11] example_srs [] 32 = Commit [5, 7, 11] example_srs [] 4 \<and>
   Commit [5, 7, 11] example_srs [] 32 = Inr 125"
  using Commit_split_equiv [of "[5, 7, 11]" example_srs 32 4]
  by (simp add: example_srs_def Commit_def MultiExp_def ScalarMultiplication_def)

text \<open>
  The round trip \<open>Verify(Commit(p), Open(p, z))\<close> succeeds for every polynomial with at least
  two coefficients: see \<open>Open_Verify_succeeds\<close> above. A polynomial with one coefficient is
  accepted by the guard of \<open>Open\<close> (line 170), its quotient has no coefficient, and the inner
  \<open>Commit\<close> (line 190) rejects the empty quotient.
\<close>

lemma Open_length_one:
  assumes "length p = 1" "G1 srs \<noteq> []" "1 \<le> Cardinality d" "Cardinality d < 2 ^ 63"
  shows "Open p z d srs numCpus = Inl ErrInvalidPolynomialSize"
proof -
  obtain c where p: "p = [c]" using assms(1) by (cases p) auto
  have g: "1 \<le> length (G1 srs)" using assms(2) by (cases "G1 srs") auto
  let ?f = "copy (make_slice (length p) (Cardinality d)) p"
  have arr: "arr ?f = p @ replicate (Cardinality d - length p) 0"
    using assms by (simp add: copy_def make_slice_def Let_def min_def)
  have len: "len ?f = length p"
    by (simp add: copy_def make_slice_def Let_def)
  obtain h where h: "dividePolyByXminusA d ?f (Eval p z) z = Inr h" "length h = length p - 1"
    using dividePolyByXminusA_quotient [OF arr len _ _ refl] assms by auto
  then have "h = []" using assms(1) by simp
  then have "Commit h srs [] numCpus = Inl ErrInvalidPolynomialSize"
    by (simp add: Commit_def)
  then show ?thesis
    using assms g h(1) by (simp add: Open_def Let_def int_of_uint64_small)
qed

text \<open>
  C1: for every polynomial \<open>p\<close> with \<open>1 \<le> len(p) \<le> len(SRS.G1)\<close> and \<open>len(p)\<close> at most the domain
  cardinality, \<open>Verify(Commit(p), Open(p, z))\<close> returns success. The code fails the claim at
  \<open>len(p) = 1\<close>: for the constant polynomial \<open>5\<close>, \<open>Commit\<close> succeeds and \<open>Open\<close> returns
  \<open>ErrInvalidPolynomialSize\<close>, so there is no proof to verify.
\<close>

theorem Open_constant_rejected:
  "Commit [5] example_srs [] 1 = Inr 5 \<and>
   Open [5] 2 example_domain example_srs 1 = Inl ErrInvalidPolynomialSize"
proof
  show "Commit [5] example_srs [] 1 = Inr 5"
    by (simp add: Commit_def MultiExp_def ScalarMultiplication_def example_srs_def)
  show "Open [5] 2 example_domain example_srs 1 = Inl ErrInvalidPolynomialSize"
    by (rule Open_length_one) (simp_all add: example_srs_def example_domain_def)
qed

subsection \<open>Claims on the Fiat-Shamir challenge and the batch protocols\<close>

lemma FoldProof_replaces_error:
  assumes "deriveGamma fs (BatchPoint bop) digests hf = (Inl e, hf')"
    and "length digests = length (ClaimedValues bop)"
  shows "FoldProof fs digests bop hf = (Inl ErrInvalidNbDigests, hf')"
  using assms by (simp add: FoldProof_def)

text \<open>
  C6: when the transcript primitive returns an error during challenge derivation, \<open>FoldProof\<close>
  propagates that error unchanged. The code fails the claim: line 358 returns
  \<open>ErrInvalidNbDigests\<close> in place of the error of \<open>deriveGamma\<close>. Here the hash write fails
  inside \<open>ComputeChallenge\<close>.
\<close>

theorem FoldProof_error_not_propagated:
  "fst (deriveGamma failing_fs 2 [5] 0) = Inl (ErrExternal ''hash: write failed'') \<and>
   fst (FoldProof failing_fs [5] \<lparr>BatchH = 1, BatchPoint = 2, ClaimedValues = [7]\<rparr> 0)
     = Inl ErrInvalidNbDigests"
  by (simp add: FoldProof_def deriveGamma_def failing_fs_def example_fs_def)

text \<open>
  C9: called with an empty digest list and an empty proof list, \<open>BatchVerifyMultiPoints\<close>
  returns success. The code fails the claim: the lengths agree and are not one, so line 415
  writes slot 0 of an empty slice and the call aborts.
\<close>

theorem BatchVerifyMultiPoints_empty_aborts:
  "BatchVerifyMultiPoints rnd [] [] srs = Some (Panic ''index out of range [0] with length 0'')"
  by (simp add: BatchVerifyMultiPoints_def)

lemma run_evals_nth:
  "length (run_evals sched ps pt cv) = length cv \<and>
   (\<forall>i < length cv. run_evals sched ps pt cv ! i = (if i \<in> set sched then Eval (ps ! i) pt else cv ! i))"
proof (induction sched arbitrary: cv)
  case Nil
  then show ?case by simp
next
  case (Cons a sched)
  show ?case
    using Cons.IH [of "cv[a := Eval (ps ! a) pt]"]
    by (auto simp: nth_list_update)
qed

lemma run_evals_schedule:
  assumes "valid_schedule (length ps) sched"
  shows "run_evals sched ps pt (replicate (length ps) 0) = map (\<lambda>p. Eval p pt) ps"
  using assms run_evals_nth [of sched ps pt "replicate (length ps) 0"]
  by (intro nth_equalityI) (auto simp: valid_schedule_def)

lemma BatchOpenSinglePoint_canonical:
  assumes "valid_schedule (length polynomials) sched"
  shows "BatchOpenSinglePoint fs sched numCpus polynomials digests point hf domain srs =
         BatchOpenSinglePoint fs [0..<length polynomials] 0 polynomials digests point hf domain srs"
proof -
  have "valid_schedule (length polynomials) [0..<length polynomials]"
    by (simp add: valid_schedule_def)
  then have "run_evals sched polynomials point (replicate (length polynomials) 0) =
        run_evals [0..<length polynomials] polynomials point (replicate (length polynomials) 0)"
    using assms by (simp only: run_evals_schedule)
  then show ?thesis
    unfolding BatchOpenSinglePoint_def
    by (simp only: Commit_numCpus [of _ srs numCpus])
qed

lemma BatchOpenSinglePoint_gamma:
  assumes "BatchOpenSinglePoint fs sched numCpus polynomials digests point hf domain srs = (Inr pr, hf')"
  shows "\<exists>gamma. deriveGamma fs point digests hf = (Inr gamma, hf')"
  using assms
  by (auto simp: BatchOpenSinglePoint_def Let_def split: if_splits sum.splits prod.splits)

text \<open>
  C7: two calls of \<open>BatchOpenSinglePoint\<close> with identical inputs (polynomials, digests, point,
  domain, SRS, hash state) return identical proofs. What a call could depend on besides its
  inputs is the order in which the evaluation goroutines run and the CPU count read by the
  inner \<open>Commit\<close>: the result, proof and hash state, is the same for any two schedules and
  CPU counts. Whenever a proof is returned, its challenge is the one \<open>deriveGamma\<close> computes
  from the point, the digests and the hash alone.
\<close>

theorem BatchOpenSinglePoint_deterministic:
  assumes "valid_schedule (length polynomials) sched" "valid_schedule (length polynomials) sched'"
  shows "BatchOpenSinglePoint fs sched numCpus polynomials digests point hf domain srs =
         BatchOpenSinglePoint fs sched' numCpus' polynomials digests point hf domain srs \<and>
         (\<forall>pr hf'. BatchOpenSinglePoint fs sched numCpus polynomials digests point hf domain srs = (Inr pr, hf')
            \<longrightarrow> (\<exists>gamma. deriveGamma fs point digests hf = (Inr gamma, hf')))"
proof -
  have "BatchOpenSinglePoint fs sched numCpus polynomials digests point hf domain srs =
        BatchOpenSinglePoint fs [0..<length polynomials] 0 polynomials digests point hf domain srs"
    by (rule BatchOpenSinglePoint_canonical [OF assms(1)])
  also have "\<dots> = BatchOpenSinglePoint fs sched' numCpus' polynomials digests point hf domain srs"
    by (rule BatchOpenSinglePoint_canonical [OF assms(2), symmetric])
  finally show ?thesis
    using BatchOpenSinglePoint_gamma [of fs sched numCpus polynomials digests point hf domain srs]
    by blast
qed

lemma take_2: "take 2 (x # y # zs) = [x, y]"
  by (simp add: numeral_2_eq_2)

theorem BatchOpenSinglePoint_deterministic_witness:
  "valid_schedule 2 [1, 0] \<and> valid_schedule 2 [0, 1] \<and>
   BatchOpenSinglePoint example_fs [1, 0] 32 [[1, 2], [3, 4]] [7, 15] 2 0 example_domain example_srs =
   BatchOpenSinglePoint example_fs [0, 1] 4 [[1, 2], [3, 4]] [7, 15] 2 0 example_domain example_srs \<and>
   BatchOpenSinglePoint example_fs [1, 0] 32 [[1, 2], [3, 4]] [7, 15] 2 0 example_domain example_srs =
     (Inr \<lparr>BatchH = 14, BatchPoint = 2, ClaimedValues = [5, 11]\<rparr>, 0) \<and>
   deriveGamma example_fs 2 [7, 15] 0 = (Inr 3, 0)"
proof -
  have v: "valid_schedule 2 [1, 0]" "valid_schedule 2 [0, 1]"
    by (auto simp: valid_schedule_def)
  have v': "valid_schedule (length [[1, 2], [3, 4 :: rat]]) [1, 0]"
    "valid_schedule (length [[1, 2], [3, 4 :: rat]]) [0, 1]"
    by (auto simp: valid_schedule_def)
  have g: "deriveGamma example_fs 2 [7, 15] 0 = (Inr 3, 0)"
    by (simp add: deriveGamma_def example_fs_def)
  have e: "BatchOpenSinglePoint example_fs [1, 0] 32 [[1, 2], [3, 4]] [7, 15] 2 0 example_domain example_srs =
     (Inr \<lparr>BatchH = 14, BatchPoint = 2, ClaimedValues = [5, 11]\<rparr>, 0)"
    by (simp add: BatchOpenSinglePoint_def g Let_def int_of_uint64_def example_domain_def
        example_srs_def copy_def make_slice_def dividePolyByXminusA_def take_2
        Commit_def MultiExp_def ScalarMultiplication_def)
  show ?thesis
    using BatchOpenSinglePoint_deterministic [OF v', of example_fs 32
        "[7, 15]" 2 0 example_domain example_srs 4] v g e
    by (simp only: simp_thms)
qed

subsection \<open>The opening on the store\<close>

lemma heap_write_frame: "b \<noteq> sbase s \<Longrightarrow> heap_write s xs h ! b = h ! b"
  by (simp add: heap_write_def)

lemma length_heap_write [simp]: "length (heap_write s xs h) = length h"
  by (simp add: heap_write_def)

lemma take_heap_write: "n \<le> sbase s \<Longrightarrow> take n (heap_write s xs h) = take n h"
  by (simp add: heap_write_def)

lemma dividePolyByXminusA_heap_frame:
  "n \<le> sbase f \<Longrightarrow> take n (snd (dividePolyByXminusA_heap d f fa a h)) = take n h"
  by (simp add: dividePolyByXminusA_heap_def Let_def take_heap_write)

lemma Open_heap_frame:
  "take (length h) (snd (Open_heap p point domain srs numCpus h)) = h"
proof -
  let ?p' = "\<lparr>sbase = length h, soff = 0, slen = slen p, scap = Cardinality domain\<rparr>"
  let ?h1 = "h @ [replicate (Cardinality domain) 0]"
  let ?h2 = "heap_copy ?p' p ?h1"
  have h2: "take (length h) ?h2 = h"
    by (simp add: heap_copy_def take_heap_write)
  have dv: "take (length h) (snd (dividePolyByXminusA_heap domain ?p' v point ?h2)) = h" for v
    using dividePolyByXminusA_heap_frame [of "length h" ?p' domain v point ?h2] h2 by simp
  have "snd (Open_heap p point domain srs numCpus h) = h \<or>
        snd (Open_heap p point domain srs numCpus h) =
          snd (dividePolyByXminusA_heap domain ?p' (Eval (heap_read h p) point) point ?h2)"
    by (auto simp: Open_heap_def heap_make_def Let_def split: prod.splits sum.splits)
  then show ?thesis
    using dv by auto
qed

text \<open>On a valid reference the opening on the store returns what \<open>Open\<close> returns on its contents.\<close>

lemma Open_heap_refines:
  assumes vr: "valid_ref h p"
  shows "fst (Open_heap p point domain srs numCpus h) = Open (heap_read h p) point domain srs numCpus"
proof -
  let ?q = "heap_read h p"
  let ?C = "Cardinality domain"
  have v: "soff p + slen p \<le> length (h ! sbase p)" and b: "sbase p < length h"
    using vr by (auto simp: valid_ref_def)
  have lq: "length ?q = slen p" using v by (simp add: heap_read_def)
  show ?thesis
  proof (cases "slen p = 0 \<or> slen p > length (G1 srs) \<or> int (slen p) > int_of_uint64 ?C")
    case True
    then show ?thesis by (auto simp: Open_heap_def Open_def lq)
  next
    case False
    have "int_of_uint64 ?C \<le> int ?C"
      by (simp add: int_of_uint64_def) (smt (verit) mod_less_eq_dividend of_nat_mono)
    with False have LC: "slen p \<le> ?C" by linarith
    let ?p' = "\<lparr>sbase = length h, soff = 0, slen = slen p, scap = ?C\<rparr>"
    let ?pC = "\<lparr>sbase = length h, soff = 0, slen = ?C, scap = ?C\<rparr>"
    let ?pD = "\<lparr>sbase = length h, soff = 0, slen = slen p - Suc 0, scap = ?C\<rparr>"
    let ?h1 = "h @ [replicate ?C 0]"
    let ?h2 = "heap_copy ?p' p ?h1"
    let ?f = "copy (make_slice (slen p) ?C) ?q"
    have rd: "heap_read ?h1 p = ?q"
      using b by (simp add: heap_read_def nth_append)
    have a2: "?h2 ! length h = arr ?f"
      using LC lq by (simp add: heap_copy_def heap_write_def rd copy_def make_slice_def Let_def min_def)
    have la: "length (arr ?f) = ?C"
      using LC lq by (simp add: copy_def make_slice_def Let_def min_def)
    have lf: "len ?f = slen p" by (simp add: copy_def make_slice_def Let_def lq)
    have l2: "length ?h2 = Suc (length h)" by (simp add: heap_copy_def)
    have win: "heap_read ?h2 ?pC = arr ?f"
      using la by (simp add: heap_read_def a2)
    define w3 where "w3 = snd (divide_loop point (length ((arr ?f)[0 := arr ?f ! 0 - Eval ?q point])) 0
                         ((arr ?f)[0 := arr ?f ! 0 - Eval ?q point]))"
    have lw3: "length w3 = ?C" by (simp add: w3_def length_divide_loop la)
    have pos: "0 < slen p" "0 < ?C" using False LC by auto
    have dh: "dividePolyByXminusA_heap domain ?p' (Eval ?q point) point ?h2 =
              (Inr ?pD, heap_write ?pC w3 ?h2)"
      using pos by (simp add: dividePolyByXminusA_heap_def Let_def win w3_def nat_diff_distrib')
    have ne: "arr ?f \<noteq> []" using la pos by auto
    have dp: "dividePolyByXminusA domain ?f (Eval ?q point) point = Inr (take (slen p - Suc 0) w3)"
      using pos la lw3 ne by (simp add: dividePolyByXminusA_def Let_def lf w3_def nat_diff_distrib')
    have rd3: "heap_read (heap_write ?pC w3 ?h2) ?pD = take (slen p - Suc 0) w3"
      using lw3 l2 LC by (simp add: heap_read_def heap_write_def)
    show ?thesis
      using False
      by (simp add: Open_heap_def Open_def lq heap_make_def Let_def dh dp rd3 split: sum.splits)
  qed
qed

text \<open>
  C10: \<open>Open\<close> never modifies its input polynomial: the division runs on a fresh copy. Every
  array of the store before the call is unchanged after it, whatever the call returns, and
  so are the coefficients read through \<open>p\<close>.
\<close>

theorem Open_preserves_input:
  assumes "valid_ref h p"
  shows "take (length h) (snd (Open_heap p point domain srs numCpus h)) = h \<and>
         heap_read (snd (Open_heap p point domain srs numCpus h)) p = heap_read h p"
proof -
  let ?h' = "snd (Open_heap p point domain srs numCpus h)"
  have fr: "take (length h) ?h' = h" by (rule Open_heap_frame)
  then have "?h' ! sbase p = h ! sbase p"
    using assms by (metis nth_take valid_ref_def)
  then show ?thesis using fr by (simp add: heap_read_def)
qed

theorem Open_preserves_input_witness:
  "valid_ref [[5, 7, 11 :: rat]] \<lparr>sbase = 0, soff = 0, slen = 2, scap = 3\<rparr> \<and>
   Open_heap \<lparr>sbase = 0, soff = 0, slen = 2, scap = 3\<rparr> 2 example_domain example_srs 1 [[5, 7, 11]] =
     (Inr \<lparr>H = 7, Point = 2, ClaimedValue = 19\<rparr>, [[5, 7, 11], [7, 0]]) \<and>
   heap_read (snd (Open_heap \<lparr>sbase = 0, soff = 0, slen = 2, scap = 3\<rparr> 2 example_domain example_srs 1 [[5, 7, 11]]))
     \<lparr>sbase = 0, soff = 0, slen = 2, scap = 3\<rparr> = [5, 7]"
proof -
  have v: "valid_ref [[5, 7, 11 :: rat]] \<lparr>sbase = 0, soff = 0, slen = 2, scap = 3\<rparr>"
    by (simp add: valid_ref_def)
  have e: "Open_heap \<lparr>sbase = 0, soff = 0, slen = 2, scap = 3\<rparr> 2 example_domain example_srs 1 [[5, 7, 11]] =
     (Inr \<lparr>H = 7, Point = 2, ClaimedValue = 19\<rparr>, [[5, 7, 11], [7, 0]])"
    by (simp add: Open_heap_def Let_def int_of_uint64_def example_domain_def example_srs_def
        heap_make_def heap_copy_def heap_read_def heap_write_def dividePolyByXminusA_heap_def take_2
        Commit_def MultiExp_def ScalarMultiplication_def)
  show ?thesis
    using Open_preserves_input [OF v, of 2 example_domain example_srs 1] v e
    by (simp add: heap_read_def take_2)
qed

end
